theory Spec2Isabelle
  imports Complex_Main
begin

section \<open>Purity validation of essential oils: the analytical functions\<close>

text \<open>
  The repository holds one Streamlit script and an earlier copy of the same program
  (the copy whose header reads "Avaliacao de OES.py"). Both define the same five
  functions: \<open>preprocessar_espectros\<close>, \<open>calcular_similaridade\<close>,
  \<open>detectar_adulterantes\<close>, \<open>determinar_pureza\<close> and \<open>pipeline\<close>. Definitions named
  as in the source follow the Streamlit script; where the earlier copy differs, its
  version carries the suffix \<open>_part000\<close>.
\<close>

subsection \<open>Cell values\<close>

text \<open>
  A cell of a table is a float64. A finite value is modelled as a real, and the three
  special values are kept, because the code produces them (division by a zero row sum,
  overflow) and reacts to them (comparisons with NaN are false, NaN is skipped by the row
  sum). An arithmetic result whose magnitude reaches \<open>2^1024 - 2^970\<close>, the least
  magnitude that float64 rounds to an infinity, becomes that infinity. Below that bound
  the exact result is kept: rounding to 53 bits, underflow and the sign of zero are not
  modelled, so a statement proved here is about the program only where rounding stays
  small against the statement's tolerance. The hypotheses of the theorems on the
  normalizer and the scorer are chosen that way (cells of one sign, sums away from the
  overflow bound).
\<close>

datatype fl = Fin real | PInf | NInf | NaN

definition overflow_threshold :: real where
  "overflow_threshold = 2 ^ 1024 - 2 ^ 970"

definition round_overflow :: "real \<Rightarrow> fl" where
  "round_overflow x =
     (if overflow_threshold \<le> x then PInf
      else if x \<le> - overflow_threshold then NInf
      else Fin x)"

fun fadd :: "fl \<Rightarrow> fl \<Rightarrow> fl" where
  "fadd NaN _ = NaN"
| "fadd _ NaN = NaN"
| "fadd (Fin a) (Fin b) = round_overflow (a + b)"
| "fadd PInf NInf = NaN"
| "fadd NInf PInf = NaN"
| "fadd PInf _ = PInf"
| "fadd _ PInf = PInf"
| "fadd NInf _ = NInf"
| "fadd _ NInf = NInf"

text \<open>
  Division as pandas performs it on numeric columns: no exception, a zero divisor gives
  NaN for a zero dividend and an infinity of the dividend's sign otherwise; a quotient
  too large for float64 is an infinity.
\<close>

fun fdiv :: "fl \<Rightarrow> fl \<Rightarrow> fl" where
  "fdiv NaN _ = NaN"
| "fdiv _ NaN = NaN"
| "fdiv (Fin a) (Fin b) =
     (if b \<noteq> 0 then round_overflow (a / b)
      else if a = 0 then NaN else if 0 < a then PInf else NInf)"
| "fdiv (Fin a) _ = Fin 0"
| "fdiv PInf (Fin b) = (if 0 \<le> b then PInf else NInf)"
| "fdiv NInf (Fin b) = (if 0 \<le> b then NInf else PInf)"
| "fdiv _ _ = NaN"

fun fge :: "fl \<Rightarrow> fl \<Rightarrow> bool" where
  "fge NaN _ = False"
| "fge _ NaN = False"
| "fge (Fin a) (Fin b) = (b \<le> a)"
| "fge PInf _ = True"
| "fge _ NInf = True"
| "fge _ _ = False"

fun fgt :: "fl \<Rightarrow> fl \<Rightarrow> bool" where
  "fgt NaN _ = False"
| "fgt _ NaN = False"
| "fgt (Fin a) (Fin b) = (b < a)"
| "fgt PInf PInf = False"
| "fgt NInf NInf = False"
| "fgt PInf _ = True"
| "fgt _ NInf = True"
| "fgt _ _ = False"

fun is_finite :: "fl \<Rightarrow> bool" where
  "is_finite (Fin _) = True"
| "is_finite _ = False"

fun the_real :: "fl \<Rightarrow> real" where
  "the_real (Fin a) = a"
| "the_real _ = 0"

text \<open>
  The cells the data model of the specification admits: an abundance is a non-negative
  number; NaN stands for a cell the file left empty.
\<close>

fun non_negative :: "fl \<Rightarrow> bool" where
  "non_negative (Fin a) = (0 \<le> a)"
| "non_negative NaN = True"
| "non_negative _ = False"

subsection \<open>Series and data frames\<close>

text \<open>
  A pandas Series as the code uses it: \<open>.name\<close> (the row label) and \<open>.values\<close>
  (the cells, by position). A DataFrame is the sequence of its rows in the order
  \<open>iterrows\<close> yields them. Column names are never read by the code (every comparison
  goes through \<open>.values\<close>), so they are not part of the model. The selector for
  \<open>.values\<close> is called \<open>vals\<close>.
\<close>

datatype 'l series = Series (name: 'l) (vals: "fl list")

type_synonym 'l dataframe = "'l series list"

subsection \<open>Errors\<close>

text \<open>
  The exceptions that can reach the analytical functions on numeric tables. All five are
  Python \<open>ValueError\<close>s; the constructor records who raises it: scikit-learn's input
  validation (a NaN or an infinity in an argument, an argument with no column, arguments
  of different widths), NumPy's broadcasting of two arrays, and the builtin \<open>max\<close> on an
  empty list.
\<close>

datatype error =
    ValueError_non_finite
  | ValueError_no_features
  | ValueError_incompatible_dimension
  | ValueError_broadcast
  | ValueError_empty_max

subsection \<open>preprocessar_espectros\<close>

text \<open>
  \<open>dados.sum(axis=1)\<close> is pandas' row sum with its default \<open>skipna=True\<close>: a NaN cell
  counts as 0, and a row without any number sums to 0. The cells are added from left to
  right, as NumPy does along a short row (on a long contiguous row it adds in blocks;
  the order matters only where an addition rounds or overflows).
\<close>

fun nansum_loop :: "fl \<Rightarrow> fl list \<Rightarrow> fl" where
  "nansum_loop acc [] = acc"
| "nansum_loop acc (v # vs) = nansum_loop (fadd acc (if v = NaN then Fin 0 else v)) vs"

definition nansum :: "fl list \<Rightarrow> fl" where
  "nansum vs = nansum_loop (Fin 0) vs"

text \<open>
  \<open>dados.div(dados.sum(axis=1), axis=0)\<close>: every cell of a row is divided by the sum of
  that row; labels and shape are kept. On numeric cells pandas raises nothing here, so the
  \<open>except\<close> branch of the Streamlit script (which returns \<open>None\<close>) is not reached and the
  function is the same in both copies.
\<close>

definition preprocessar_espectros :: "'l dataframe \<Rightarrow> 'l dataframe" where
  "preprocessar_espectros dados =
     map (\<lambda>r. Series (name r) (map (\<lambda>v. fdiv v (nansum (vals r))) (vals r))) dados"

subsection \<open>cosine_similarity (scikit-learn)\<close>

text \<open>
  The library function the scorer calls, for one row against one row (the code passes two
  one-row matrices and reads entry \<open>[0][0]\<close>). It validates both arguments (all cells
  finite, at least one column), compares their widths, scales each row by its Euclidean
  norm and returns the dot product of the scaled rows. Before the scaling,
  \<open>_handle_zeros_in_scale\<close> replaces every norm below \<open>10 * eps\<close> by 1 (\<open>eps\<close> is
  the float64 machine epsilon \<open>2^-52\<close>), so a zero row, and any row that small, is left
  as it is: a zero row scores 0 against everything and no exception is raised for it.
  A row whose sum of squares overflows has the norm \<open>inf\<close> and is scaled to zeros.
\<close>

definition check_array :: "fl list \<Rightarrow> error + real list" where
  "check_array xs =
     (if \<not> list_all is_finite xs then Inl ValueError_non_finite
      else if xs = [] then Inl ValueError_no_features
      else Inr (map the_real xs))"

definition row_norm :: "real list \<Rightarrow> real" where
  "row_norm xs = sqrt (sum_list (map (\<lambda>v. v * v) xs))"

definition float_eps :: real where
  "float_eps = 1 / 2 ^ 52"

definition handle_zeros_in_scale :: "real \<Rightarrow> real" where
  "handle_zeros_in_scale s = (if s < 10 * float_eps then 1 else s)"

definition normalize :: "real list \<Rightarrow> real list" where
  "normalize xs =
     (if overflow_threshold \<le> sum_list (map (\<lambda>v. v * v) xs) then map (\<lambda>v. 0) xs
      else map (\<lambda>v. v / handle_zeros_in_scale (row_norm xs)) xs)"

definition dot :: "real list \<Rightarrow> real list \<Rightarrow> real" where
  "dot xs ys = sum_list (map (\<lambda>(x, y). x * y) (zip xs ys))"

definition cosine_similarity :: "fl list \<Rightarrow> fl list \<Rightarrow> error + real" where
  "cosine_similarity x y =
     (case check_array x of
        Inl e \<Rightarrow> Inl e
      | Inr xr \<Rightarrow>
          (case check_array y of
             Inl e \<Rightarrow> Inl e
           | Inr yr \<Rightarrow>
               if length xr \<noteq> length yr then Inl ValueError_incompatible_dimension
               else Inr (dot (normalize xr) (normalize yr))))"

subsection \<open>calcular_similaridade\<close>

text \<open>
  The Streamlit script wraps the whole loop in \<open>try\<close>: an exception ends the loop, is
  reported on the page and in the log, and the scores collected so far are returned.
\<close>

fun calcular_similaridade_loop :: "fl list \<Rightarrow> 'l dataframe \<Rightarrow> real list \<Rightarrow> real list" where
  "calcular_similaridade_loop e [] similaridades = similaridades"
| "calcular_similaridade_loop e (referencia # rest) similaridades =
     (case cosine_similarity e (vals referencia) of
        Inl err \<Rightarrow> similaridades
      | Inr s \<Rightarrow> calcular_similaridade_loop e rest (similaridades @ [s]))"

definition calcular_similaridade :: "'l series \<Rightarrow> 'l dataframe \<Rightarrow> real list" where
  "calcular_similaridade espectro_teste banco_referencia =
     calcular_similaridade_loop (vals espectro_teste) banco_referencia []"

text \<open>The earlier copy has no \<open>try\<close>: the exception leaves the function.\<close>

fun calcular_similaridade_loop_part000 ::
  "fl list \<Rightarrow> 'l dataframe \<Rightarrow> real list \<Rightarrow> error + real list" where
  "calcular_similaridade_loop_part000 e [] similaridades = Inr similaridades"
| "calcular_similaridade_loop_part000 e (referencia # rest) similaridades =
     (case cosine_similarity e (vals referencia) of
        Inl err \<Rightarrow> Inl err
      | Inr s \<Rightarrow> calcular_similaridade_loop_part000 e rest (similaridades @ [s]))"

definition calcular_similaridade_part000 ::
  "'l series \<Rightarrow> 'l dataframe \<Rightarrow> error + real list" where
  "calcular_similaridade_part000 espectro_teste banco_referencia =
     calcular_similaridade_loop_part000 (vals espectro_teste) banco_referencia []"

subsection \<open>detectar_adulterantes\<close>

text \<open>
  \<open>espectro_teste.values >= adulterante.values\<close> compares two one-dimensional NumPy
  arrays cell by cell. Arrays of equal length are compared position by position; an array
  of length 1 is broadcast against the other; any other pair of lengths raises
  \<open>ValueError\<close>.
\<close>

definition elementwise :: "(fl \<Rightarrow> fl \<Rightarrow> bool) \<Rightarrow> fl list \<Rightarrow> fl list \<Rightarrow> error + bool list" where
  "elementwise cmp xs ys =
     (if length xs = length ys then Inr (map (\<lambda>(x, y). cmp x y) (zip xs ys))
      else if length xs = 1 then Inr (map (\<lambda>y. cmp (hd xs) y) ys)
      else if length ys = 1 then Inr (map (\<lambda>x. cmp x (hd ys)) xs)
      else Inl ValueError_broadcast)"

definition any :: "bool list \<Rightarrow> bool" where
  "any bs = list_ex (\<lambda>b. b) bs"

fun detectar_adulterantes_loop :: "fl list \<Rightarrow> 'l dataframe \<Rightarrow> 'l list \<Rightarrow> 'l list" where
  "detectar_adulterantes_loop e [] adulterantes_detectados = adulterantes_detectados"
| "detectar_adulterantes_loop e (adulterante # rest) adulterantes_detectados =
     (case elementwise fge e (vals adulterante) of
        Inl err \<Rightarrow> adulterantes_detectados
      | Inr bs \<Rightarrow>
          detectar_adulterantes_loop e rest
            (if any bs then adulterantes_detectados @ [name adulterante]
             else adulterantes_detectados))"

definition detectar_adulterantes :: "'l series \<Rightarrow> 'l dataframe \<Rightarrow> 'l list" where
  "detectar_adulterantes espectro_teste banco_adulterantes =
     detectar_adulterantes_loop (vals espectro_teste) banco_adulterantes []"

text \<open>The earlier copy compares with \<open>></\<close> and has no \<open>try\<close>.\<close>

fun detectar_adulterantes_loop_part000 ::
  "fl list \<Rightarrow> 'l dataframe \<Rightarrow> 'l list \<Rightarrow> error + 'l list" where
  "detectar_adulterantes_loop_part000 e [] adulterantes_detectados = Inr adulterantes_detectados"
| "detectar_adulterantes_loop_part000 e (adulterante # rest) adulterantes_detectados =
     (case elementwise fgt e (vals adulterante) of
        Inl err \<Rightarrow> Inl err
      | Inr bs \<Rightarrow>
          detectar_adulterantes_loop_part000 e rest
            (if any bs then adulterantes_detectados @ [name adulterante]
             else adulterantes_detectados))"

definition detectar_adulterantes_part000 :: "'l series \<Rightarrow> 'l dataframe \<Rightarrow> error + 'l list" where
  "detectar_adulterantes_part000 espectro_teste banco_adulterantes =
     detectar_adulterantes_loop_part000 (vals espectro_teste) banco_adulterantes []"

subsection \<open>determinar_pureza\<close>

definition determinar_pureza :: "fl \<Rightarrow> 'l list \<Rightarrow> string" where
  "determinar_pureza similaridade adulterantes_detectados =
     (if fge similaridade (Fin (9 / 10)) \<and> adulterantes_detectados = []
      then ''Alta potencial de pureza''
      else ''Alerta: Produto possivelmente adulterado'')"

definition determinar_pureza_part000 :: "fl \<Rightarrow> 'l list \<Rightarrow> string" where
  "determinar_pureza_part000 similaridade adulterantes_detectados =
     (if fge similaridade (Fin (9 / 10)) \<and> adulterantes_detectados = []
      then ''Alto potencial de pureza''
      else ''Alerta: Produto possivelmente adulterado'')"

subsection \<open>pipeline\<close>

text \<open>
  The pipeline of the Streamlit script, from the three loaded tables (\<open>None\<close> where
  \<open>carregar_espectros\<close> failed) to the list \<open>resultados\<close>. Reading the files, the PCA
  plot and the printing of the list are outside the model. The builtin \<open>max\<close> raises
  \<open>ValueError\<close> on an empty list; nothing in \<open>pipeline\<close> catches it.
\<close>

definition py_max :: "real list \<Rightarrow> error + real" where
  "py_max xs =
     (case xs of
        [] \<Rightarrow> Inl ValueError_empty_max
      | x # rest \<Rightarrow> Inr (foldl (\<lambda>m v. if v > m then v else m) x rest))"

record 'l resultado =
  similaridade :: real
  status :: string
  adulterantes :: "'l list"

fun pipeline_loop ::
  "'l dataframe \<Rightarrow> 'l dataframe \<Rightarrow> 'l dataframe \<Rightarrow> 'l resultado list
     \<Rightarrow> error + 'l resultado list" where
  "pipeline_loop [] banco_referencia banco_adulterantes resultados = Inr resultados"
| "pipeline_loop (espectro # rest) banco_referencia banco_adulterantes resultados =
     (case py_max (calcular_similaridade espectro banco_referencia) of
        Inl err \<Rightarrow> Inl err
      | Inr max_similaridade \<Rightarrow>
          (let ads = detectar_adulterantes espectro banco_adulterantes;
               st = determinar_pureza (Fin max_similaridade) ads
           in pipeline_loop rest banco_referencia banco_adulterantes
                (resultados @
                  [\<lparr>similaridade = max_similaridade, status = st, adulterantes = ads\<rparr>])))"

definition pipeline ::
  "'l dataframe option \<Rightarrow> 'l dataframe option \<Rightarrow> 'l dataframe option
     \<Rightarrow> error + 'l resultado list option" where
  "pipeline espectros_teste banco_referencia banco_adulterantes =
     (case (espectros_teste, banco_referencia, banco_adulterantes) of
        (Some t, Some r, Some a) \<Rightarrow>
          (case pipeline_loop (preprocessar_espectros t) (preprocessar_espectros r)
                  (preprocessar_espectros a) [] of
             Inl err \<Rightarrow> Inl err
           | Inr resultados \<Rightarrow> Inr (Some resultados))
      | _ \<Rightarrow> Inr None)"

section \<open>Properties\<close>

subsection \<open>The purity classifier\<close>

text \<open>
  C1. The classifier returns the purity label exactly when the similarity is at least
  0.9 and the list of detected adulterants is empty, and the alert label in every other
  case. Similarity 0.9 with no findings is pure, 0.8999 with no findings is adulterated,
  0.95 with one finding is adulterated. The earlier copy differs only in the spelling of
  the purity label.
\<close>

theorem determinar_pureza_table:
  "(determinar_pureza s ads = ''Alta potencial de pureza'')
      = (fge s (Fin (9 / 10)) \<and> ads = [])
   \<and> (determinar_pureza s ads = ''Alerta: Produto possivelmente adulterado'')
      = (\<not> (fge s (Fin (9 / 10)) \<and> ads = []))
   \<and> (determinar_pureza_part000 s ads = ''Alto potencial de pureza'')
      = (fge s (Fin (9 / 10)) \<and> ads = [])
   \<and> (determinar_pureza_part000 s ads = ''Alerta: Produto possivelmente adulterado'')
      = (\<not> (fge s (Fin (9 / 10)) \<and> ads = []))
   \<and> determinar_pureza (Fin (9 / 10)) ([] :: 'l list) = ''Alta potencial de pureza''
   \<and> determinar_pureza (Fin (8999 / 10000)) ([] :: 'l list)
      = ''Alerta: Produto possivelmente adulterado''
   \<and> determinar_pureza (Fin (95 / 100)) [x] = ''Alerta: Produto possivelmente adulterado''"
  by (simp add: determinar_pureza_def determinar_pureza_part000_def)

subsection \<open>The normalizer\<close>




lemma round_overflow_eq_Fin: "round_overflow x = Fin y \<Longrightarrow> y = x"
  by (simp add: round_overflow_def split: if_splits)

lemma fadd_eq_Fin:
  "fadd acc w = Fin s \<Longrightarrow> \<exists>c a. acc = Fin c \<and> w = Fin a \<and> s = c + a"
  by (cases acc; cases w) (auto dest: round_overflow_eq_Fin)

lemma fadd_not_finite: "\<not> is_finite acc \<Longrightarrow> \<not> is_finite (fadd acc w)"
  by (cases acc; cases w) simp_all

lemma nansum_loop_not_finite: "\<not> is_finite acc \<Longrightarrow> \<not> is_finite (nansum_loop acc vs)"
  by (induction vs arbitrary: acc) (simp_all add: fadd_not_finite)

lemma nansum_loop_Fin:
  "nansum_loop acc vs = Fin s \<Longrightarrow>
     (\<forall>v\<in>set vs. v \<noteq> PInf \<and> v \<noteq> NInf) \<and> s = the_real acc + sum_list (map the_real vs)
       \<and> is_finite acc"
proof (induction vs arbitrary: acc)
  case Nil
  then show ?case by simp
next
  case (Cons v vs)
  let ?w = "if v = NaN then Fin 0 else v"
  from Cons.prems have loop: "nansum_loop (fadd acc ?w) vs = Fin s" by simp
  from Cons.IH [OF loop] have rest: "\<forall>v\<in>set vs. v \<noteq> PInf \<and> v \<noteq> NInf"
    and s: "s = the_real (fadd acc ?w) + sum_list (map the_real vs)"
    and fin: "is_finite (fadd acc ?w)" by simp_all
  from fin obtain c' where c': "fadd acc ?w = Fin c'" by (cases "fadd acc ?w") simp_all
  from fadd_eq_Fin [OF c'] obtain c a where
    ca: "acc = Fin c" "?w = Fin a" "c' = c + a" by blast
  from ca(2) have v: "v \<noteq> PInf" "v \<noteq> NInf" "the_real v = a"
    by (cases v; simp split: if_splits)+
  from rest v s c' ca show ?case by simp
qed

lemma nansum_Fin_no_inf:
  "nansum vs = Fin s \<Longrightarrow> v \<in> set vs \<Longrightarrow> v \<noteq> PInf \<and> v \<noteq> NInf"
  unfolding nansum_def using nansum_loop_Fin by blast

lemma nansum_Fin_value: "nansum vs = Fin s \<Longrightarrow> s = sum_list (map the_real vs)"
  unfolding nansum_def using nansum_loop_Fin [of "Fin 0" vs s] by simp

lemma non_negative_the_real: "non_negative v \<Longrightarrow> 0 \<le> the_real v"
  by (cases v) simp_all






lemma nansum_loop_PInf_NaN:
  "acc = PInf \<or> acc = NaN \<Longrightarrow> nansum_loop acc vs = PInf \<or> nansum_loop acc vs = NaN"
proof (induction vs arbitrary: acc)
  case Nil
  then show ?case by simp
next
  case (Cons v vs)
  from Cons.prems have "fadd acc (if v = NaN then Fin 0 else v) = PInf
      \<or> fadd acc (if v = NaN then Fin 0 else v) = NaN"
    by (cases v) auto
  then show ?case using Cons.IH by simp
qed

lemma nansum_loop_NInf_NaN:
  "acc = NInf \<or> acc = NaN \<Longrightarrow> nansum_loop acc vs = NInf \<or> nansum_loop acc vs = NaN"
proof (induction vs arbitrary: acc)
  case Nil
  then show ?case by simp
next
  case (Cons v vs)
  from Cons.prems have "fadd acc (if v = NaN then Fin 0 else v) = NInf
      \<or> fadd acc (if v = NaN then Fin 0 else v) = NaN"
    by (cases v) auto
  then show ?case using Cons.IH by simp
qed

lemma nansum_loop_holds_PInf:
  "PInf \<in> set vs \<Longrightarrow> nansum_loop acc vs = PInf \<or> nansum_loop acc vs = NaN"
proof (induction vs arbitrary: acc)
  case Nil
  then show ?case by simp
next
  case (Cons v vs)
  show ?case
  proof (cases "v = PInf")
    case True
    then have "fadd acc (if v = NaN then Fin 0 else v) = PInf
        \<or> fadd acc (if v = NaN then Fin 0 else v) = NaN"
      by (cases acc) simp_all
    then show ?thesis using nansum_loop_PInf_NaN by simp
  next
    case False
    with Cons.prems have "PInf \<in> set vs" by simp
    then show ?thesis using Cons.IH by simp
  qed
qed

lemma nansum_loop_holds_NInf:
  "NInf \<in> set vs \<Longrightarrow> nansum_loop acc vs = NInf \<or> nansum_loop acc vs = NaN"
proof (induction vs arbitrary: acc)
  case Nil
  then show ?case by simp
next
  case (Cons v vs)
  show ?case
  proof (cases "v = NInf")
    case True
    then have "fadd acc (if v = NaN then Fin 0 else v) = NInf
        \<or> fadd acc (if v = NaN then Fin 0 else v) = NaN"
      by (cases acc) simp_all
    then show ?thesis using nansum_loop_NInf_NaN by simp
  next
    case False
    with Cons.prems have "NInf \<in> set vs" by simp
    then show ?thesis using Cons.IH by simp
  qed
qed

lemma infinite_cell_gives_NaN:
  assumes "v \<in> set vs" and "v = PInf \<or> v = NInf"
  shows "fdiv v (nansum vs) = NaN"
proof -
  from assms(2) show ?thesis
  proof
    assume p: "v = PInf"
    with assms(1) have "nansum vs = PInf \<or> nansum vs = NaN"
      unfolding nansum_def by (intro nansum_loop_holds_PInf) simp
    with p show ?thesis by auto
  next
    assume n: "v = NInf"
    with assms(1) have "nansum vs = NInf \<or> nansum vs = NaN"
      unfolding nansum_def by (intro nansum_loop_holds_NInf) simp
    with n show ?thesis by auto
  qed
qed

lemma zero_sum_cells:
  assumes nn: "\<forall>v\<in>set vs. non_negative v" and z: "nansum vs = Fin 0" and v: "v \<in> set vs"
  shows "fdiv v (nansum vs) = NaN"
proof -
  have zero: "sum_list (map the_real vs) = 0" using nansum_Fin_value [OF z] by simp
  have "(sum_list (map the_real vs) = 0) = (\<forall>x\<in>set (map the_real vs). x = 0)"
    by (rule sum_list_nonneg_eq_0_iff) (use nn in \<open>auto dest: non_negative_the_real\<close>)
  with zero have "\<forall>x\<in>set (map the_real vs). x = 0" by blast
  with v have "the_real v = 0" by simp
  moreover from nn v have "non_negative v" by blast
  ultimately show ?thesis unfolding z by (cases v) simp_all
qed

lemma vals_preprocessar_nth:
  "i < length dados \<Longrightarrow>
     vals (preprocessar_espectros dados ! i)
       = map (\<lambda>v. fdiv v (nansum (vals (dados ! i)))) (vals (dados ! i))"
  by (simp add: preprocessar_espectros_def)

text \<open>
  C3 (as the code has it). The normalizer has no error path: for every table it returns a
  table with the same number of rows. A row of non-negative cells whose sum is zero (a
  row of zeros, NaN cells aside) comes back with every cell NaN, and an infinite cell
  comes back as NaN. No \<open>DegenerateRowError\<close> exists in either copy of the program.
\<close>

theorem preprocessar_espectros_degenerate_row:
  "i < length dados \<Longrightarrow>
     length (preprocessar_espectros dados) = length dados
     \<and> ((\<forall>v\<in>set (vals (dados ! i)). non_negative v) \<and> nansum (vals (dados ! i)) = Fin 0 \<longrightarrow>
          list_all (\<lambda>v. v = NaN) (vals (preprocessar_espectros dados ! i)))
     \<and> (\<forall>j<length (vals (dados ! i)).
          vals (dados ! i) ! j = PInf \<or> vals (dados ! i) ! j = NInf \<longrightarrow>
          vals (preprocessar_espectros dados ! i) ! j = NaN)"
proof (intro conjI impI allI)
  show "length (preprocessar_espectros dados) = length dados"
    by (simp add: preprocessar_espectros_def)
next
  assume i: "i < length dados"
    and z: "(\<forall>v\<in>set (vals (dados ! i)). non_negative v) \<and> nansum (vals (dados ! i)) = Fin 0"
  then have "fdiv v (nansum (vals (dados ! i))) = NaN" if "v \<in> set (vals (dados ! i))" for v
    using that by (intro zero_sum_cells) blast+
  then show "list_all (\<lambda>v. v = NaN) (vals (preprocessar_espectros dados ! i))"
    unfolding vals_preprocessar_nth [OF i] list_all_iff by simp
next
  fix j
  assume i: "i < length dados" and j: "j < length (vals (dados ! i))"
    and inf: "vals (dados ! i) ! j = PInf \<or> vals (dados ! i) ! j = NInf"
  from j have "vals (dados ! i) ! j \<in> set (vals (dados ! i))" by simp
  from infinite_cell_gives_NaN [OF this inf] j
  show "vals (preprocessar_espectros dados ! i) ! j = NaN"
    by (simp add: vals_preprocessar_nth [OF i])
qed

text \<open>
  The sentence of the specification fails on a row of two zeros: the row sum is 0 and the
  function returns the table with the row \<open>[NaN, NaN]\<close>.
\<close>

theorem preprocessar_espectros_zero_row_counterexample:
  "nansum [Fin 0, Fin 0] = Fin 0
   \<and> preprocessar_espectros [Series (0::nat) [Fin 0, Fin 0]] = [Series 0 [NaN, NaN]]"
  by (simp add: preprocessar_espectros_def nansum_def round_overflow_def overflow_threshold_def)

theorem preprocessar_espectros_degenerate_row_witness:
  "(0::nat) < length [Series (0::nat) [Fin 0, Fin 0], Series 1 [PInf, Fin 1]]
   \<and> list_all non_negative (vals ([Series (0::nat) [Fin 0, Fin 0], Series 1 [PInf, Fin 1]] ! 0))
   \<and> nansum (vals ([Series (0::nat) [Fin 0, Fin 0], Series 1 [PInf, Fin 1]] ! 0)) = Fin 0
   \<and> list_all (\<lambda>v. v = NaN)
        (vals (preprocessar_espectros [Series (0::nat) [Fin 0, Fin 0], Series 1 [PInf, Fin 1]] ! 0))
   \<and> length (preprocessar_espectros [Series (0::nat) [Fin 0, Fin 0], Series 1 [PInf, Fin 1]]) = 2"
  using preprocessar_espectros_degenerate_row
          [of 0 "[Series (0::nat) [Fin 0, Fin 0], Series 1 [PInf, Fin 1]]"]
  by (simp add: nansum_def round_overflow_def overflow_threshold_def)

text \<open>
  A row with an infinite cell: the sum is \<open>inf\<close>, the infinite cell becomes NaN and
  the finite one 0.
\<close>

lemma infinite_cell_example:
  "preprocessar_espectros [Series (0::nat) [Fin 0, Fin 0], Series 1 [PInf, Fin 1]]
     = [Series 0 [NaN, NaN], Series 1 [NaN, Fin 0]]"
  by (simp add: preprocessar_espectros_def nansum_def round_overflow_def overflow_threshold_def)







subsection \<open>Cosine similarity\<close>

lemma sum_squares_nonneg: "0 \<le> sum_list (map (\<lambda>v. v * v) (xs :: real list))"
  by (rule sum_list_nonneg) auto

lemma row_norm_nonneg: "0 \<le> row_norm xs"
  by (simp add: row_norm_def sum_squares_nonneg)

lemma row_norm_Cons: "row_norm (x # xs) = sqrt (x * x + (row_norm xs)\<^sup>2)"
  by (simp add: row_norm_def sum_squares_nonneg)

lemma dot_Nil [simp]: "dot [] ys = 0" "dot xs [] = 0"
  by (simp_all add: dot_def)

lemma dot_Cons [simp]: "dot (x # xs) (y # ys) = x * y + dot xs ys"
  by (simp add: dot_def)

lemma two_dim_bound:
  fixes a b p q :: real
  assumes "0 \<le> p" "0 \<le> q"
  shows "p * q + \<bar>a\<bar> * \<bar>b\<bar> \<le> sqrt (a * a + p\<^sup>2) * sqrt (b * b + q\<^sup>2)"
proof -
  have "0 \<le> (\<bar>a\<bar> * q - p * \<bar>b\<bar>)\<^sup>2" by simp
  then have "2 * (p * q * \<bar>a\<bar> * \<bar>b\<bar>) \<le> a\<^sup>2 * q\<^sup>2 + p\<^sup>2 * b\<^sup>2"
    by (simp add: power2_diff power_mult_distrib algebra_simps)
  then have "(p * q + \<bar>a\<bar> * \<bar>b\<bar>)\<^sup>2 \<le> (a * a + p\<^sup>2) * (b * b + q\<^sup>2)"
    by (simp add: power2_sum power_mult_distrib algebra_simps power2_eq_square [symmetric])
  then have "p * q + \<bar>a\<bar> * \<bar>b\<bar> \<le> sqrt ((a * a + p\<^sup>2) * (b * b + q\<^sup>2))"
    by (rule real_le_rsqrt)
  then show ?thesis by (simp add: real_sqrt_mult)
qed

lemma dot_bound: "\<bar>dot xs ys\<bar> \<le> row_norm xs * row_norm ys"
proof (induction xs arbitrary: ys)
  case Nil
  then show ?case by (simp add: row_norm_def)
next
  case (Cons x xs)
  show ?case
  proof (cases ys)
    case Nil
    then show ?thesis by (simp add: row_norm_nonneg)
  next
    case (Cons y ys')
    have "\<bar>dot (x # xs) (y # ys')\<bar> \<le> \<bar>dot xs ys'\<bar> + \<bar>x\<bar> * \<bar>y\<bar>"
      by (simp add: abs_mult [symmetric])
    also have "\<dots> \<le> row_norm xs * row_norm ys' + \<bar>x\<bar> * \<bar>y\<bar>"
      using Cons.IH [of ys'] by simp
    also have "\<dots> \<le> row_norm (x # xs) * row_norm (y # ys')"
      unfolding row_norm_Cons by (rule two_dim_bound) (rule row_norm_nonneg)+
    finally show ?thesis using Cons by simp
  qed
qed

lemma dot_zero_norm: "row_norm xs = 0 \<or> row_norm ys = 0 \<Longrightarrow> dot xs ys = 0"
  using dot_bound [of xs ys] by auto



lemma row_norm_scaled: "row_norm (map (\<lambda>v. v / c) xs) = row_norm xs / \<bar>c\<bar>"
proof -
  have "sum_list (map (\<lambda>v. v * v) (map (\<lambda>v. v / c) xs))
          = sum_list (map (\<lambda>v. v * v) xs) / (c * c)"
    by (induction xs) (simp_all add: add_divide_distrib)
  then show ?thesis by (simp add: row_norm_def real_sqrt_divide)
qed





lemma overflow_threshold_pos: "0 < overflow_threshold"
  by (simp add: overflow_threshold_def)

lemma row_norm_normalize_zero: "row_norm xs = 0 \<Longrightarrow> row_norm (normalize xs) = 0"
proof -
  assume z: "row_norm xs = 0"
  then have "sum_list (map (\<lambda>v. v * v) xs) = 0"
    by (simp add: row_norm_def sum_squares_nonneg)
  with overflow_threshold_pos have "\<not> overflow_threshold \<le> sum_list (map (\<lambda>v. v * v) xs)"
    by simp
  with z show ?thesis by (simp add: normalize_def row_norm_scaled)
qed

lemma dot_normalize_zero:
  "row_norm xs = 0 \<or> row_norm ys = 0 \<Longrightarrow> dot (normalize xs) (normalize ys) = 0"
  by (rule dot_zero_norm) (auto dest: row_norm_normalize_zero)




subsection \<open>The similarity scorer\<close>

lemma check_array_ok:
  "list_all is_finite x \<Longrightarrow> x \<noteq> [] \<Longrightarrow> check_array x = Inr (map the_real x)"
  by (simp add: check_array_def)

lemma check_array_length: "check_array x = Inr xr \<Longrightarrow> length xr = length x"
  by (auto simp: check_array_def split: if_splits)

lemma cosine_similarity_ok:
  assumes "list_all is_finite x" "x \<noteq> []" "list_all is_finite y" "length y = length x"
  shows "cosine_similarity x y
           = Inr (dot (normalize (map the_real x)) (normalize (map the_real y)))"
proof -
  from assms(2,4) have "y \<noteq> []" by auto
  with assms show ?thesis by (simp add: cosine_similarity_def check_array_ok)
qed


lemma cosine_similarity_mismatch:
  "length x \<noteq> length y \<Longrightarrow> \<exists>err. cosine_similarity x y = Inl err"
  by (auto simp: cosine_similarity_def split: sum.splits dest!: check_array_length)

lemma calcular_similaridade_loop_ok:
  assumes "list_all is_finite e" "e \<noteq> []"
    and "\<forall>r\<in>set banco. list_all is_finite (vals r) \<and> length (vals r) = length e"
  shows "calcular_similaridade_loop e banco acc
           = acc @ map (\<lambda>r. dot (normalize (map the_real e)) (normalize (map the_real (vals r))))
                     banco"
  using assms(3)
proof (induction banco arbitrary: acc)
  case Nil
  then show ?case by simp
next
  case (Cons r rest)
  then have "cosine_similarity e (vals r)
      = Inr (dot (normalize (map the_real e)) (normalize (map the_real (vals r))))"
    using assms(1,2) by (simp add: cosine_similarity_ok)
  with Cons show ?case by simp
qed

lemma calcular_similaridade_loop_part000_ok:
  assumes "list_all is_finite e" "e \<noteq> []"
    and "\<forall>r\<in>set banco. list_all is_finite (vals r) \<and> length (vals r) = length e"
  shows "calcular_similaridade_loop_part000 e banco acc
           = Inr (acc @ map (\<lambda>r. dot (normalize (map the_real e))
                                      (normalize (map the_real (vals r)))) banco)"
  using assms(3)
proof (induction banco arbitrary: acc)
  case Nil
  then show ?case by simp
next
  case (Cons r rest)
  then have "cosine_similarity e (vals r)
      = Inr (dot (normalize (map the_real e)) (normalize (map the_real (vals r))))"
    using assms(1,2) by (simp add: cosine_similarity_ok)
  with Cons show ?case by simp
qed

lemma calcular_similaridade_ok:
  assumes "list_all is_finite (vals a)" "vals a \<noteq> []"
    and "\<forall>r\<in>set banco. list_all is_finite (vals r) \<and> length (vals r) = length (vals a)"
  shows "calcular_similaridade a banco
           = map (\<lambda>r. dot (normalize (map the_real (vals a)))
                          (normalize (map the_real (vals r)))) banco"
    and "calcular_similaridade_part000 a banco = Inr (calcular_similaridade a banco)"
  using assms
  by (simp_all add: calcular_similaridade_def calcular_similaridade_part000_def
        calcular_similaridade_loop_ok calcular_similaridade_loop_part000_ok)


text \<open>
  C6 (as the code has it). For rows of finite cells and equal, non-zero width: when the
  test vector or a reference row has zero norm, the scorer still returns one score per
  reference row, and the score of that pair is 0. Neither copy raises for a zero norm;
  scikit-learn leaves a zero row unscaled instead of dividing by its norm.
\<close>

theorem calcular_similaridade_zero_norm:
  assumes "list_all is_finite (vals a)" and "vals a \<noteq> []"
    and "\<forall>r\<in>set banco. list_all is_finite (vals r) \<and> length (vals r) = length (vals a)"
    and "i < length banco"
    and "row_norm (map the_real (vals a)) = 0 \<or> row_norm (map the_real (vals (banco ! i))) = 0"
  shows "length (calcular_similaridade a banco) = length banco
     \<and> calcular_similaridade a banco ! i = 0
     \<and> calcular_similaridade_part000 a banco = Inr (calcular_similaridade a banco)"
  using assms(4,5)
  by (simp add: calcular_similaridade_ok [OF assms(1-3)] dot_normalize_zero)

text \<open>
  The sentence of the specification fails on the zero profile \<open>[0, 0]\<close> scored against the row
  \<open>[1, 0]\<close>: both copies return the score 0 for the pair.
\<close>

theorem calcular_similaridade_zero_norm_counterexample:
  "row_norm (map the_real [Fin 0, Fin 0]) = 0
   \<and> calcular_similaridade (Series (0::nat) [Fin 0, Fin 0]) [Series (0::nat) [Fin 1, Fin 0]] = [0]
   \<and> calcular_similaridade_part000 (Series (0::nat) [Fin 0, Fin 0])
        [Series (0::nat) [Fin 1, Fin 0]] = Inr [0]"
  by (simp add: calcular_similaridade_def calcular_similaridade_part000_def
        cosine_similarity_def check_array_def dot_normalize_zero row_norm_def)

theorem calcular_similaridade_zero_norm_witness:
  "list_all is_finite [Fin 0, Fin 0]
   \<and> row_norm (map the_real [Fin 0, Fin 0]) = 0
   \<and> length (calcular_similaridade (Series (0::nat) [Fin 0, Fin 0])
        [Series (0::nat) [Fin 1, Fin 0], Series 1 [Fin 3, Fin 4]]) = 2
   \<and> calcular_similaridade (Series (0::nat) [Fin 0, Fin 0])
        [Series (0::nat) [Fin 1, Fin 0], Series 1 [Fin 3, Fin 4]] ! 1 = 0"
  using calcular_similaridade_zero_norm
    [of "Series (0::nat) [Fin 0, Fin 0]"
        "[Series (0::nat) [Fin 1, Fin 0], Series 1 [Fin 3, Fin 4]]" 1]
  by (simp add: row_norm_def)




subsection \<open>The adulterant detector\<close>

lemma any_zip:
  "length xs = length ys \<Longrightarrow>
     any (map (\<lambda>(x, y). cmp x y) (zip xs ys)) = (\<exists>i<length xs. cmp (xs ! i) (ys ! i))"
  by (auto simp: any_def list_ex_iff set_zip)

lemma elementwise_same_width:
  "length ys = length xs \<Longrightarrow> elementwise cmp xs ys = Inr (map (\<lambda>(x, y). cmp x y) (zip xs ys))"
  by (simp add: elementwise_def)

lemma elementwise_no_broadcast:
  "length xs \<noteq> length ys \<Longrightarrow> length xs \<noteq> 1 \<Longrightarrow> length ys \<noteq> 1 \<Longrightarrow>
     elementwise cmp xs ys = Inl ValueError_broadcast"
  by (simp add: elementwise_def)

lemma detectar_adulterantes_loop_same_width:
  "\<forall>x\<in>set banco. length (vals x) = length e \<Longrightarrow>
     detectar_adulterantes_loop e banco acc
       = acc @ map name (filter (\<lambda>x. \<exists>i<length e. fge (e ! i) (vals x ! i)) banco)"
proof (induction banco arbitrary: acc)
  case Nil
  then show ?case by simp
next
  case (Cons x rest)
  then have w: "length (vals x) = length e" by simp
  from Cons show ?case
    by (simp add: elementwise_same_width [OF w] any_zip [OF w [symmetric]])
qed

lemma detectar_adulterantes_loop_part000_same_width:
  "\<forall>x\<in>set banco. length (vals x) = length e \<Longrightarrow>
     detectar_adulterantes_loop_part000 e banco acc
       = Inr (acc @ map name (filter (\<lambda>x. \<exists>i<length e. fgt (e ! i) (vals x ! i)) banco))"
proof (induction banco arbitrary: acc)
  case Nil
  then show ?case by simp
next
  case (Cons x rest)
  then have w: "length (vals x) = length e" by simp
  from Cons show ?case
    by (simp add: elementwise_same_width [OF w] any_zip [OF w [symmetric]])
qed

text \<open>
  C2 (as the code has it). For a test profile and an adulterant table of the same width,
  the detector of the Streamlit script returns, in table order, the labels of exactly the
  rows for which some column has test value \<open>>=\<close> adulterant value; the earlier copy
  returns the labels of exactly the rows for which some column has test value \<open>></\<close>
  adulterant value. In both, one such column suffices.
\<close>

theorem detectar_adulterantes_flags:
  assumes "\<forall>x\<in>set banco. length (vals x) = length (vals a)"
  shows "detectar_adulterantes a banco
           = map name (filter (\<lambda>x. \<exists>i<length (vals a). fge (vals a ! i) (vals x ! i)) banco)
     \<and> detectar_adulterantes_part000 a banco
           = Inr (map name
                    (filter (\<lambda>x. \<exists>i<length (vals a). fgt (vals a ! i) (vals x ! i)) banco))"
  using assms
  by (simp add: detectar_adulterantes_def detectar_adulterantes_part000_def
        detectar_adulterantes_loop_same_width detectar_adulterantes_loop_part000_same_width)

text \<open>
  The sentence of the specification fails for the earlier copy on a profile equal to the adulterant
  row: every column satisfies \<open>>=\<close>, the Streamlit script flags the row, the earlier copy
  does not.
\<close>

theorem detectar_adulterantes_part000_counterexample:
  "fge (Fin (1 / 2)) (Fin (1 / 2))
   \<and> detectar_adulterantes (Series (0::nat) [Fin (1 / 2), Fin (1 / 2)])
        [Series (7::nat) [Fin (1 / 2), Fin (1 / 2)]] = [7]
   \<and> detectar_adulterantes_part000 (Series (0::nat) [Fin (1 / 2), Fin (1 / 2)])
        [Series (7::nat) [Fin (1 / 2), Fin (1 / 2)]] = Inr []"
  by (simp add: detectar_adulterantes_def detectar_adulterantes_part000_def
        elementwise_def any_def)

theorem detectar_adulterantes_flags_witness:
  "length (vals (Series (1::nat) [Fin (6 / 10), Fin (4 / 10)])) = 2
   \<and> detectar_adulterantes (Series (0::nat) [Fin (45 / 100), Fin (55 / 100)])
        [Series (1::nat) [Fin (6 / 10), Fin (4 / 10)], Series 2 [Fin (1 / 2), Fin (6 / 10)]] = [1]
   \<and> detectar_adulterantes_part000 (Series (0::nat) [Fin (45 / 100), Fin (55 / 100)])
        [Series (1::nat) [Fin (6 / 10), Fin (4 / 10)], Series 2 [Fin (1 / 2), Fin (6 / 10)]]
        = Inr [1]"
  using detectar_adulterantes_flags
    [of "[Series (1::nat) [Fin (6 / 10), Fin (4 / 10)], Series 2 [Fin (1 / 2), Fin (6 / 10)]]"
        "Series (0::nat) [Fin (45 / 100), Fin (55 / 100)]"]
  by (simp add: detectar_adulterantes_def detectar_adulterantes_part000_def
        elementwise_def any_def)

lemma fge_trans: "fge v w \<Longrightarrow> fge w y \<Longrightarrow> fge v y"
  by (cases v; cases w; cases y) simp_all

lemma fge_fgt_trans: "fge v w \<Longrightarrow> fgt w y \<Longrightarrow> fgt v y"
  by (cases v; cases w; cases y) simp_all

lemma any_map_mono:
  "length es' = length es \<Longrightarrow> \<forall>j<length es. f (es ! j) \<longrightarrow> g (es' ! j) \<Longrightarrow>
     any (map f es) \<Longrightarrow> any (map g es')"
  by (auto simp: any_def list_ex_iff Bex_def in_set_conv_nth)

lemma elementwise_mono:
  assumes len: "length e' = length e"
    and up: "\<forall>j<length e. \<forall>y. cmp (e ! j) y \<longrightarrow> cmp (e' ! j) y"
  shows "elementwise cmp e ys = Inl err \<Longrightarrow> elementwise cmp e' ys = Inl err"
    and "elementwise cmp e ys = Inr bs \<Longrightarrow>
           \<exists>bs'. elementwise cmp e' ys = Inr bs' \<and> (any bs \<longrightarrow> any bs')"
proof -
  show "elementwise cmp e ys = Inl err \<Longrightarrow> elementwise cmp e' ys = Inl err"
    using len by (auto simp: elementwise_def split: if_splits)
next
  assume r: "elementwise cmp e ys = Inr bs"
  show "\<exists>bs'. elementwise cmp e' ys = Inr bs' \<and> (any bs \<longrightarrow> any bs')"
  proof (cases "length e = length ys")
    case True
    with r have bs: "bs = map (\<lambda>(x, y). cmp x y) (zip e ys)"
      by (simp add: elementwise_def)
    from True len have e': "elementwise cmp e' ys = Inr (map (\<lambda>(x, y). cmp x y) (zip e' ys))"
      by (simp add: elementwise_def)
    have "any (map (\<lambda>(x, y). cmp x y) (zip e ys)) \<longrightarrow> any (map (\<lambda>(x, y). cmp x y) (zip e' ys))"
      using True len up by (auto simp: any_zip)
    with bs e' show ?thesis by simp
  next
    case False
    show ?thesis
    proof (cases "length e = 1")
      case True
      then obtain x0 where e: "e = [x0]" by (cases e) auto
      from True len obtain x1 where e1: "e' = [x1]" by (cases e') auto
      from up e e1 have "\<forall>y. cmp x0 y \<longrightarrow> cmp x1 y" by simp
      then have "any (map (cmp x0) ys) \<longrightarrow> any (map (cmp x1) ys)"
        by (auto simp: any_def list_ex_iff)
      moreover from r False e have "bs = map (cmp x0) ys"
        by (simp add: elementwise_def)
      moreover from False len e e1 have "elementwise cmp e' ys = Inr (map (cmp x1) ys)"
        by (simp add: elementwise_def)
      ultimately show ?thesis by simp
    next
      case ne1: False
      with r False obtain y0 where ys: "ys = [y0]"
        by (cases ys) (auto simp: elementwise_def split: if_splits)
      with r False ne1 have bs: "bs = map (\<lambda>x. cmp x y0) e"
        by (simp add: elementwise_def)
      from False ne1 len ys have e': "elementwise cmp e' ys = Inr (map (\<lambda>x. cmp x y0) e')"
        by (simp add: elementwise_def)
      have "any (map (\<lambda>x. cmp x y0) e) \<longrightarrow> any (map (\<lambda>x. cmp x y0) e')"
        using any_map_mono [OF len, of "\<lambda>x. cmp x y0" "\<lambda>x. cmp x y0"] up by blast
      with bs e' show ?thesis by simp
    qed
  qed
qed

lemma detectar_adulterantes_loop_mono:
  assumes len: "length e' = length e"
    and up: "\<forall>j<length e. \<forall>y. fge (e ! j) y \<longrightarrow> fge (e' ! j) y"
  shows "set acc \<subseteq> set acc' \<Longrightarrow>
     set (detectar_adulterantes_loop e banco acc) \<subseteq> set (detectar_adulterantes_loop e' banco acc')"
proof (induction banco arbitrary: acc acc')
  case Nil
  then show ?case by simp
next
  case (Cons x rest)
  show ?case
  proof (cases "elementwise fge e (vals x)")
    case (Inl err)
    then have "elementwise fge e' (vals x) = Inl err"
      by (rule elementwise_mono(1) [OF len up])
    with Inl Cons.prems show ?thesis by simp
  next
    case (Inr bs)
    from elementwise_mono(2) [OF len up Inr] obtain bs' where
      bs': "elementwise fge e' (vals x) = Inr bs'" "any bs \<longrightarrow> any bs'" by blast
    let ?acc1 = "if any bs then acc @ [name x] else acc"
    let ?acc2 = "if any bs' then acc' @ [name x] else acc'"
    from Cons.prems bs'(2) have "set ?acc1 \<subseteq> set ?acc2" by auto
    then have "set (detectar_adulterantes_loop e rest ?acc1)
                 \<subseteq> set (detectar_adulterantes_loop e' rest ?acc2)"
      by (rule Cons.IH)
    with Inr bs'(1) show ?thesis by simp
  qed
qed

lemma detectar_adulterantes_loop_part000_mono:
  assumes len: "length e' = length e"
    and up: "\<forall>j<length e. \<forall>y. fgt (e ! j) y \<longrightarrow> fgt (e' ! j) y"
  shows "set acc \<subseteq> set acc' \<Longrightarrow> detectar_adulterantes_loop_part000 e banco acc = Inr ds \<Longrightarrow>
     \<exists>ds'. detectar_adulterantes_loop_part000 e' banco acc' = Inr ds' \<and> set ds \<subseteq> set ds'"
proof (induction banco arbitrary: acc acc')
  case Nil
  then show ?case by auto
next
  case (Cons x rest)
  show ?case
  proof (cases "elementwise fgt e (vals x)")
    case (Inl err)
    with Cons.prems(2) show ?thesis by simp
  next
    case (Inr bs)
    from elementwise_mono(2) [OF len up Inr] obtain bs' where
      bs': "elementwise fgt e' (vals x) = Inr bs'" "any bs \<longrightarrow> any bs'" by blast
    let ?acc1 = "if any bs then acc @ [name x] else acc"
    let ?acc2 = "if any bs' then acc' @ [name x] else acc'"
    from Cons.prems(1) bs'(2) have sub: "set ?acc1 \<subseteq> set ?acc2" by auto
    from Cons.prems(2) Inr have "detectar_adulterantes_loop_part000 e rest ?acc1 = Inr ds"
      by simp
    from Cons.IH [OF sub this] bs'(1) show ?thesis by simp
  qed
qed

lemma update_pointwise:
  assumes "i < length e" and "fge v (e ! i)"
  shows "\<forall>j<length e. \<forall>y. fge (e ! j) y \<longrightarrow> fge (e[i := v] ! j) y"
    and "\<forall>j<length e. \<forall>y. fgt (e ! j) y \<longrightarrow> fgt (e[i := v] ! j) y"
  using assms by (auto simp: nth_list_update intro: fge_trans fge_fgt_trans)

text \<open>
  C9. Detection is monotone in the test profile: replacing the value of one column by a
  value at least as large keeps every flagged adulterant flagged. It holds for both
  copies; for the earlier one, which can raise, a run that returned a list still returns
  one.
\<close>

theorem detectar_adulterantes_monotone:
  assumes "i < length (vals a)" and "fge v (vals a ! i)"
  shows "set (detectar_adulterantes a banco)
           \<subseteq> set (detectar_adulterantes (Series (name a) ((vals a)[i := v])) banco)
     \<and> (\<forall>ds. detectar_adulterantes_part000 a banco = Inr ds \<longrightarrow>
          (\<exists>ds'. detectar_adulterantes_part000 (Series (name a) ((vals a)[i := v])) banco = Inr ds'
                 \<and> set ds \<subseteq> set ds'))"
proof (intro conjI allI impI)
  show "set (detectar_adulterantes a banco)
          \<subseteq> set (detectar_adulterantes (Series (name a) ((vals a)[i := v])) banco)"
    unfolding detectar_adulterantes_def series.sel
    by (rule detectar_adulterantes_loop_mono [OF _ update_pointwise(1) [OF assms]]) simp_all
next
  fix ds assume "detectar_adulterantes_part000 a banco = Inr ds"
  then show "\<exists>ds'. detectar_adulterantes_part000 (Series (name a) ((vals a)[i := v])) banco
                      = Inr ds' \<and> set ds \<subseteq> set ds'"
    unfolding detectar_adulterantes_part000_def series.sel
    by (rule detectar_adulterantes_loop_part000_mono
              [OF _ update_pointwise(2) [OF assms], rotated 2]) simp_all
qed

theorem detectar_adulterantes_monotone_witness:
  "fge (Fin (7 / 10)) (Fin (45 / 100))
   \<and> detectar_adulterantes (Series (0::nat) [Fin (45 / 100), Fin (55 / 100)])
        [Series (1::nat) [Fin (6 / 10), Fin (4 / 10)], Series 2 [Fin (65 / 100), Fin (6 / 10)]]
       = [1]
   \<and> detectar_adulterantes (Series (0::nat) [Fin (7 / 10), Fin (55 / 100)])
        [Series (1::nat) [Fin (6 / 10), Fin (4 / 10)], Series 2 [Fin (65 / 100), Fin (6 / 10)]]
       = [1, 2]
   \<and> set (detectar_adulterantes (Series (0::nat) [Fin (45 / 100), Fin (55 / 100)])
        [Series (1::nat) [Fin (6 / 10), Fin (4 / 10)], Series 2 [Fin (65 / 100), Fin (6 / 10)]])
     \<subseteq> set (detectar_adulterantes (Series (0::nat) [Fin (7 / 10), Fin (55 / 100)])
        [Series (1::nat) [Fin (6 / 10), Fin (4 / 10)], Series 2 [Fin (65 / 100), Fin (6 / 10)]])"
  using detectar_adulterantes_monotone
    [of 0 "Series (0::nat) [Fin (45 / 100), Fin (55 / 100)]" "Fin (7 / 10)"
        "[Series (1::nat) [Fin (6 / 10), Fin (4 / 10)], Series 2 [Fin (65 / 100), Fin (6 / 10)]]"]
  by (simp add: detectar_adulterantes_def elementwise_def any_def)

subsection \<open>Mismatched widths and the empty reference table\<close>

text \<open>
  C8 (as the code has it). In the Streamlit script, when no row of the table has the width
  of the test profile, the scorer returns the empty list; the detector returns the empty
  list as well, provided neither width is 1 (NumPy broadcasts a one-cell array against
  any other, and then the comparison goes through). The library's \<open>ValueError\<close> is
  caught inside both functions, which report it and return what they have collected;
  there is no \<open>SchemaMismatchError\<close>.
\<close>

theorem mismatched_widths_return_empty:
  assumes "\<forall>r\<in>set banco. length (vals r) \<noteq> length (vals a)"
  shows "calcular_similaridade a banco = []
     \<and> (length (vals a) \<noteq> 1 \<and> (\<forall>r\<in>set banco. length (vals r) \<noteq> 1)
          \<longrightarrow> detectar_adulterantes a banco = [])"
proof (cases banco)
  case Nil
  then show ?thesis
    by (simp add: calcular_similaridade_def detectar_adulterantes_def)
next
  case (Cons r rest)
  with assms have w: "length (vals a) \<noteq> length (vals r)" by auto
  from cosine_similarity_mismatch [OF w] obtain err where
    "cosine_similarity (vals a) (vals r) = Inl err" by blast
  with Cons have s: "calcular_similaridade a banco = []"
    by (simp add: calcular_similaridade_def)
  have "detectar_adulterantes a banco = []"
    if "length (vals a) \<noteq> 1" and "\<forall>r\<in>set banco. length (vals r) \<noteq> 1"
  proof -
    from that Cons have "length (vals r) \<noteq> 1" by simp
    with w that(1) have "elementwise fge (vals a) (vals r) = Inl ValueError_broadcast"
      by (rule elementwise_no_broadcast)
    with Cons show ?thesis by (simp add: detectar_adulterantes_def)
  qed
  with s show ?thesis by blast
qed

text \<open>
  The sentence of the specification fails on a profile of three columns against a table row of four:
  scikit-learn and NumPy both raise, and both functions return the empty list.
\<close>

theorem mismatched_widths_counterexample:
  "cosine_similarity [Fin 1, Fin 2, Fin 3] [Fin 1, Fin 2, Fin 3, Fin 4]
     = Inl ValueError_incompatible_dimension
   \<and> calcular_similaridade (Series (0::nat) [Fin 1, Fin 2, Fin 3])
        [Series (0::nat) [Fin 1, Fin 2, Fin 3, Fin 4]] = []
   \<and> elementwise fge [Fin 1, Fin 2, Fin 3] [Fin 1, Fin 2, Fin 3, Fin 4]
     = Inl ValueError_broadcast
   \<and> detectar_adulterantes (Series (0::nat) [Fin 1, Fin 2, Fin 3])
        [Series (0::nat) [Fin 1, Fin 2, Fin 3, Fin 4]] = []"
  by (simp add: calcular_similaridade_def detectar_adulterantes_def cosine_similarity_def
        check_array_def elementwise_def)

theorem mismatched_widths_return_empty_witness:
  "length (vals (Series (0::nat) [Fin 1, Fin 2, Fin 3, Fin 4]))
     \<noteq> length (vals (Series (0::nat) [Fin 1, Fin 2, Fin 3]))
   \<and> calcular_similaridade (Series (0::nat) [Fin 1, Fin 2, Fin 3])
        [Series (0::nat) [Fin 1, Fin 2, Fin 3, Fin 4], Series 1 [Fin 4, Fin 3, Fin 2, Fin 1]] = []
   \<and> detectar_adulterantes (Series (0::nat) [Fin 1, Fin 2, Fin 3])
        [Series (0::nat) [Fin 1, Fin 2, Fin 3, Fin 4], Series 1 [Fin 4, Fin 3, Fin 2, Fin 1]] = []"
  using mismatched_widths_return_empty
    [of "[Series (0::nat) [Fin 1, Fin 2, Fin 3, Fin 4], Series 1 [Fin 4, Fin 3, Fin 2, Fin 1]]"
        "Series (0::nat) [Fin 1, Fin 2, Fin 3]"]
  by simp

text \<open>
  C10. With a reference table of zero rows the scorer returns the empty list for every
  test profile, \<open>max\<close> of it raises, and a pipeline run with at least one test row ends
  with that exception at the first test row, before any result is listed.
\<close>

theorem pipeline_empty_reference:
  assumes "espectros_teste \<noteq> []"
  shows "preprocessar_espectros ([] :: 'l dataframe) = []
     \<and> (\<forall>espectro :: 'l series. calcular_similaridade espectro [] = [])
     \<and> py_max [] = Inl ValueError_empty_max
     \<and> pipeline (Some espectros_teste) (Some ([] :: 'l dataframe)) (Some banco_adulterantes)
         = Inl ValueError_empty_max"
proof -
  from assms obtain e rest where "preprocessar_espectros espectros_teste = e # rest"
    by (cases espectros_teste) (simp_all add: preprocessar_espectros_def)
  then show ?thesis
    by (simp add: pipeline_def calcular_similaridade_def py_max_def preprocessar_espectros_def)
qed

theorem pipeline_empty_reference_witness:
  "[Series (0::nat) [Fin 45, Fin 55]] \<noteq> []
   \<and> calcular_similaridade (Series (0::nat) [Fin (45 / 100), Fin (55 / 100)]) [] = []
   \<and> pipeline (Some [Series (0::nat) [Fin 45, Fin 55]]) (Some [])
        (Some [Series (0::nat) [Fin 60, Fin 40]]) = Inl ValueError_empty_max"
  using pipeline_empty_reference
    [of "[Series (0::nat) [Fin 45, Fin 55]]" "[Series (0::nat) [Fin 60, Fin 40]]"]
  by simp

text \<open>
  The scenario of the specification: test \<open>{A:45, B:55}\<close>, reference \<open>{A:50, B:50}\<close>,
  adulterant \<open>{A:60, B:40}\<close>. The adulterant is flagged and the verdict is the alert.
\<close>

lemma end_to_end_scenario:
  "\<exists>s. pipeline (Some [Series (0::nat) [Fin 45, Fin 55]]) (Some [Series (0::nat) [Fin 50, Fin 50]])
        (Some [Series (0::nat) [Fin 60, Fin 40]])
      = Inr (Some [\<lparr>similaridade = s,
                         status = ''Alerta: Produto possivelmente adulterado'',
                         adulterantes = [0]\<rparr>])"
  by (simp add: pipeline_def preprocessar_espectros_def calcular_similaridade_def py_max_def
        cosine_similarity_def check_array_def detectar_adulterantes_def elementwise_def
        any_def determinar_pureza_def Let_def nansum_def round_overflow_def
        overflow_threshold_def)

end
